theory Spec2Isabelle
  imports Main "HOL-Library.Sublist"
begin

section \<open>The dashboard client of app/static/script.js\<close>

text \<open>
  The script registers handlers on a Socket.IO connection, on two buttons and on a
  one-second timer. Every handler runs to completion on the single event thread and
  does nothing but read and write properties of ten page elements, emit on the socket
  and write to the console. The model is explicit state passing: a record of the
  properties the script touches, and one function per handler that returns the record
  updated.

  The host (browser) supplies three functions that the script calls but does not
  define: the text of a payload number when it is assigned to \<open>textContent\<close>,
  \<open>new Date(x).toLocaleTimeString()\<close>, and the HTML fragment parser behind the
  \<open>innerHTML\<close> setter. They are parameters of the model. The alert log is the forest of
  nodes below the log container, so that markup carried by a payload becomes elements
  of the entry it is parsed into, and \<open>querySelector\<close> sees them. The parsed fragment is
  taken as inert: script that a payload may smuggle in (an event-handler attribute) is
  not run by the model.
\<close>

subsection \<open>Payloads\<close>

record 'n frame_data =
  image :: string
  fps :: 'n
  face_count :: 'n

record 't alert_data =
  timestamp :: 't
  alert_type :: string
  message :: string
  severity :: string

subsection \<open>The page\<close>

text \<open>
  A node of the document below the log container: a text node, or an element with its
  tag, its class list and its children in document order.
\<close>

datatype node =
    Text string
  | Element (tag: string) (classList: "string list") (childNodes: "node list")

record ('n, 't) host =
  toText :: "'n \<Rightarrow> string"
  toLocaleTimeString :: "'t \<Rightarrow> string"
  parseFragment :: "string \<Rightarrow> node list"

record ui =
  videoFeed_src :: string
  supervisionOverlay_display :: string
  startBtn_disabled :: bool
  stopBtn_disabled :: bool
  statusDot_classList :: "string list"
  statusText_textContent :: string
  timeDisplay_textContent :: string
  fpsStat_textContent :: string
  facesStat_textContent :: string
  alertsLog :: "node list"
  emitted :: "string list"
  console :: "string list"

subsection \<open>Class lists\<close>

text \<open>
  \<open>classList.add\<close> and \<open>classList.remove\<close> of the DOM. \<open>add\<close> first validates every
  token (the empty token raises SyntaxError, a token with ASCII whitespace raises
  InvalidCharacterError) and only then appends the tokens that are not yet present.
\<close>

datatype dom_exception = SyntaxError | InvalidCharacterError

definition ascii_whitespace :: "char \<Rightarrow> bool" where
  "ascii_whitespace c \<longleftrightarrow> c \<in> set [CHR 0x09, CHR 0x0A, CHR 0x0C, CHR 0x0D, CHR 0x20]"

fun validate_tokens :: "string list \<Rightarrow> dom_exception option" where
  "validate_tokens [] = None"
| "validate_tokens (t # ts) =
     (if t = [] then Some SyntaxError
      else if list_ex ascii_whitespace t then Some InvalidCharacterError
      else validate_tokens ts)"

definition append_token :: "string \<Rightarrow> string list \<Rightarrow> string list" where
  "append_token t cs = (if t \<in> set cs then cs else cs @ [t])"

definition classList_add :: "string list \<Rightarrow> string list \<Rightarrow> dom_exception + string list" where
  "classList_add ts cs =
     (case validate_tokens ts of
        Some e \<Rightarrow> Inl e
      | None \<Rightarrow> Inr (fold append_token ts cs))"

definition classList_remove :: "string \<Rightarrow> string list \<Rightarrow> string list" where
  "classList_remove t cs = filter (\<lambda>c. c \<noteq> t) cs"

subsection \<open>UI control functions\<close>

text \<open>
  The markup that \<open>startSupervisionUI\<close> assigns to the log is a constant of the script;
  its parse is the one element below.
\<close>

definition alert_placeholder :: node where
  "alert_placeholder = Element ''div'' [''alert-placeholder''] [Text ''Monitoring...'']"

definition startSupervisionUI :: "ui \<Rightarrow> ui" where
  "startSupervisionUI s =
     s\<lparr>startBtn_disabled := True,
       stopBtn_disabled := False,
       supervisionOverlay_display := ''none'',
       alertsLog := [alert_placeholder]\<rparr>"

definition stopSupervisionUI :: "ui \<Rightarrow> ui" where
  "stopSupervisionUI s =
     s\<lparr>startBtn_disabled := False,
       stopBtn_disabled := True,
       supervisionOverlay_display := ''flex'',
       videoFeed_src := ''static/placeholder.png'',
       fpsStat_textContent := ''--'',
       facesStat_textContent := ''--''\<rparr>"

subsection \<open>Socket.IO event listeners\<close>

text \<open>
  The two tokens that the connect and disconnect listeners pass to \<open>classList\<close> are
  constants without whitespace, so these calls never raise and the token operations
  are applied directly.
\<close>

definition on_connect :: "ui \<Rightarrow> ui" where
  "on_connect s =
     s\<lparr>console := console s @ [''Connected to server!''],
       statusDot_classList :=
         append_token ''connected'' (classList_remove ''disconnected'' (statusDot_classList s)),
       statusText_textContent := ''CONNECTED''\<rparr>"

definition on_disconnect :: "ui \<Rightarrow> ui" where
  "on_disconnect s =
     stopSupervisionUI
       (s\<lparr>console := console s @ [''Disconnected from server.''],
          statusDot_classList :=
            append_token ''disconnected'' (classList_remove ''connected'' (statusDot_classList s)),
          statusText_textContent := ''DISCONNECTED''\<rparr>)"

definition on_video_frame :: "('n, 't) host \<Rightarrow> 'n frame_data \<Rightarrow> ui \<Rightarrow> ui" where
  "on_video_frame h d s =
     s\<lparr>videoFeed_src := ''data:image/jpeg;base64,'' @ image d,
       fpsStat_textContent := toText h (fps d),
       facesStat_textContent := toText h (face_count d)\<rparr>"

text \<open>
  \<open>querySelector\<close> with a class selector returns the first descendant of the container,
  in document order (an element before its children, the children before the following
  siblings), whose class list has the class; \<open>remove\<close> detaches that node from its
  parent, wherever it sits. Nodes are values here, so the two calls are one function:
  the forest without the first match, or \<open>None\<close> when no descendant matches.
\<close>

fun querySelector_remove :: "string \<Rightarrow> node list \<Rightarrow> node list option" where
  "querySelector_remove c [] = None"
| "querySelector_remove c (Text t # ns) =
     map_option ((#) (Text t)) (querySelector_remove c ns)"
| "querySelector_remove c (Element tg cs kids # ns) =
     (if c \<in> set cs then Some ns
      else case querySelector_remove c kids of
             Some kids' \<Rightarrow> Some (Element tg cs kids' # ns)
           | None \<Rightarrow> map_option ((#) (Element tg cs kids)) (querySelector_remove c ns))"

text \<open>
  The new_alert listener. The placeholder is removed before the new item is built, so
  it is gone also when \<open>classList.add\<close> then raises on the severity token and the
  listener ends without reaching \<open>prepend\<close>. The item's children are what the host's
  parser makes of the markup. The listener's result is the exception it raised, if any,
  and the page as it leaves it.
\<close>

definition newline :: string where
  "newline = [CHR 0x0A]"

definition alert_markup :: "('n, 't) host \<Rightarrow> 't alert_data \<Rightarrow> string" where
  \<open>alert_markup h al =
     newline @ replicate 12 (CHR '' '') @
     ''<div class="timestamp">'' @ toLocaleTimeString h (timestamp al) @ ''</div>'' @
     newline @ replicate 12 (CHR '' '') @
     ''<div class="message">'' @ alert_type al @ ''</div>'' @
     newline @ replicate 12 (CHR '' '') @
     ''<div class="details">'' @ message al @ ''</div>'' @
     newline @ replicate 8 (CHR '' '')\<close>

definition on_new_alert ::
  "('n, 't) host \<Rightarrow> 't alert_data \<Rightarrow> ui \<Rightarrow> dom_exception option \<times> ui" where
  "on_new_alert h al s =
     (let s1 = (case querySelector_remove ''alert-placeholder'' (alertsLog s) of
                  Some without_placeholder \<Rightarrow> s\<lparr>alertsLog := without_placeholder\<rparr>
                | None \<Rightarrow> s)
      in case classList_add [''alert-item'', ''severity-'' @ severity al] [] of
           Inl e \<Rightarrow> (Some e, s1)
         | Inr cs \<Rightarrow>
             (None, s1\<lparr>alertsLog :=
                Element ''div'' cs (parseFragment h (alert_markup h al)) # alertsLog s1\<rparr>))"

definition on_supervision_stopped :: "ui \<Rightarrow> ui" where
  "on_supervision_stopped s =
     (let s1 = stopSupervisionUI s
      in s1\<lparr>console := console s1 @ [''Supervision stopped by server.'']\<rparr>)"

subsection \<open>Button handlers\<close>

definition startBtn_click :: "ui \<Rightarrow> ui" where
  "startBtn_click s =
     startSupervisionUI
       (s\<lparr>console := console s @ [''Requesting to start supervision...''],
          emitted := emitted s @ [''start_supervision'']\<rparr>)"

definition stopBtn_click :: "ui \<Rightarrow> ui" where
  "stopBtn_click s =
     stopSupervisionUI
       (s\<lparr>console := console s @ [''Requesting to stop supervision...''],
          emitted := emitted s @ [''stop_supervision'']\<rparr>)"

subsection \<open>Clock\<close>

definition updateTime :: "('n, 't) host \<Rightarrow> 't \<Rightarrow> ui \<Rightarrow> ui" where
  "updateTime h now s = s\<lparr>timeDisplay_textContent := toLocaleTimeString h now\<rparr>"

subsection \<open>The event loop\<close>

text \<open>
  One event of the page's queue runs one handler to its end. An exception that a
  listener raises is reported by the host and lost; the page keeps what the listener
  had written, and the next event is handled as usual. The script itself never checks
  whether a control is enabled, so neither does \<open>dispatch\<close>: a host that withholds the
  click of a disabled button delivers fewer sequences than \<open>run\<close> accepts.
\<close>

datatype ('n, 't) event =
    Connect
  | Disconnect
  | VideoFrame "'n frame_data"
  | NewAlert "'t alert_data"
  | SupervisionStopped
  | StartClick
  | StopClick
  | Tick 't

fun dispatch :: "('n, 't) host \<Rightarrow> ('n, 't) event \<Rightarrow> ui \<Rightarrow> ui" where
  "dispatch h Connect s = on_connect s"
| "dispatch h Disconnect s = on_disconnect s"
| "dispatch h (VideoFrame d) s = on_video_frame h d s"
| "dispatch h (NewAlert al) s = snd (on_new_alert h al s)"
| "dispatch h SupervisionStopped s = on_supervision_stopped s"
| "dispatch h StartClick s = startBtn_click s"
| "dispatch h StopClick s = stopBtn_click s"
| "dispatch h (Tick now) s = updateTime h now s"

definition run :: "('n, 't) host \<Rightarrow> ('n, 't) event list \<Rightarrow> ui \<Rightarrow> ui" where
  "run h evs s = fold (dispatch h) evs s"

section \<open>Vocabulary of the properties\<close>

text \<open>
  The script keeps no phase variable. What the spec calls the monitoring phase and the
  idle (or stopped-by-server) phase is read off the controls and the overlay.
\<close>

definition monitoring :: "ui \<Rightarrow> bool" where
  "monitoring s \<longleftrightarrow>
     startBtn_disabled s \<and> \<not> stopBtn_disabled s \<and> supervisionOverlay_display s = ''none''"

definition stopped :: "ui \<Rightarrow> bool" where
  "stopped s \<longleftrightarrow>
     \<not> startBtn_disabled s \<and> stopBtn_disabled s \<and> supervisionOverlay_display s = ''flex''"

text \<open>The six properties that \<open>stopSupervisionUI\<close> writes.\<close>

definition reset_fields :: "ui \<Rightarrow> bool \<times> bool \<times> string \<times> string \<times> string \<times> string" where
  "reset_fields s =
     (startBtn_disabled s, stopBtn_disabled s, supervisionOverlay_display s,
      videoFeed_src s, fpsStat_textContent s, facesStat_textContent s)"

text \<open>
  The entry that the new_alert listener builds for an alert. A node holds a class when
  it or one of its descendants carries it. The alert entries of a log are its entries
  that hold no \<open>alert-placeholder\<close>: this leaves out the placeholder itself and any
  entry into which a payload has put an element of that class. \<open>drop_placeholder\<close> is
  the log once \<open>querySelector\<close> and \<open>remove\<close> have run.
\<close>

definition alert_item :: "('n, 't) host \<Rightarrow> 't alert_data \<Rightarrow> node" where
  "alert_item h al =
     Element ''div'' [''alert-item'', ''severity-'' @ severity al]
       (parseFragment h (alert_markup h al))"









subsection \<open>Concrete data\<close>

text \<open>
  Modelled from the spec: the page before the first event. The template that declares
  the ten elements (app/templates) is not among the sources; the spec has the session
  created idle (start enabled, stop disabled, overlay shown, placeholder image and
  indicators) and the connection created disconnected.
\<close>

definition idle_page :: ui where
  "idle_page =
     \<lparr>videoFeed_src = ''static/placeholder.png'',
      supervisionOverlay_display = ''flex'',
      startBtn_disabled = False,
      stopBtn_disabled = True,
      statusDot_classList = [''disconnected''],
      statusText_textContent = ''DISCONNECTED'',
      timeDisplay_textContent = '''',
      fpsStat_textContent = ''--'',
      facesStat_textContent = ''--'',
      alertsLog = [],
      emitted = [],
      console = []\<rparr>"

text \<open>
  A fragment parser for the concrete runs. It covers the markup that occurs in them:
  text, start tags with an optional quoted \<open>class\<close> attribute, and end tags, properly
  nested. \<open>scan\<close> cuts the input at the angle brackets, \<open>build\<close> keeps the stack of open
  elements (innermost first, the fragment root last), each with the children collected
  so far.
\<close>

datatype raw = RText string | RTag string

fun scan :: "bool \<Rightarrow> string \<Rightarrow> string \<Rightarrow> raw list" where
  "scan False buf [] = (if buf = [] then [] else [RText buf])"
| "scan True buf [] = [RText (CHR ''<'' # buf)]"
| "scan False buf (c # cs) =
     (if c = CHR ''<'' then (if buf = [] then [] else [RText buf]) @ scan True [] cs
      else scan False (buf @ [c]) cs)"
| "scan True buf (c # cs) =
     (if c = CHR ''>'' then RTag buf # scan False [] cs else scan True (buf @ [c]) cs)"

fun split_words :: "string \<Rightarrow> string \<Rightarrow> string list" where
  "split_words buf [] = (if buf = [] then [] else [buf])"
| "split_words buf (c # cs) =
     (if c = CHR '' '' then (if buf = [] then [] else [buf]) @ split_words [] cs
      else split_words (buf @ [c]) cs)"

fun class_value :: "string \<Rightarrow> string" where
  "class_value [] = []"
| \<open>class_value (c # cs) =
     (if prefix ''class="'' (c # cs) then takeWhile (\<lambda>x. x \<noteq> CHR 0x22) (drop 7 (c # cs))
      else class_value cs)\<close>

type_synonym open_element = "string \<times> string list \<times> node list"

fun add_child :: "node \<Rightarrow> open_element list \<Rightarrow> open_element list" where
  "add_child n [] = [([], [], [n])]"
| "add_child n ((tg, cs, kids) # st) = (tg, cs, kids @ [n]) # st"

fun close_all :: "open_element list \<Rightarrow> node list" where
  "close_all [] = []"
| "close_all [(tg, cs, kids)] = kids"
| "close_all ((tg, cs, kids) # (tg', cs', kids') # st) =
     close_all ((tg', cs', kids' @ [Element tg cs kids]) # st)"

fun build :: "raw list \<Rightarrow> open_element list \<Rightarrow> node list" where
  "build [] st = close_all st"
| "build (RText t # ts) st = build ts (add_child (Text t) st)"
| "build (RTag b # ts) st =
     (if b \<noteq> [] \<and> hd b = CHR ''/'' then
        (case st of
           (tg, cs, kids) # f # st' \<Rightarrow> build ts (add_child (Element tg cs kids) (f # st'))
         | _ \<Rightarrow> build ts st)
      else build ts
             ((takeWhile (\<lambda>x. x \<noteq> CHR '' '') b, split_words [] (class_value b), []) # st))"

definition sample_parse :: "string \<Rightarrow> node list" where
  "sample_parse m = build (scan False [] m) [([], [], [])]"

text \<open>
  A host for the concrete runs: payload numbers are given by their decimal text and
  instants by their local time of day, so both conversions return their argument.
\<close>

definition sample_host :: "(string, string) host" where
  "sample_host =
     \<lparr>toText = (\<lambda>n. n), toLocaleTimeString = (\<lambda>t. t), parseFragment = sample_parse\<rparr>"

definition frame1 :: "string frame_data" where
  "frame1 = \<lparr>image = ''AAAA'', fps = ''24'', face_count = ''1''\<rparr>"

definition frame2 :: "string frame_data" where
  "frame2 = \<lparr>image = ''BBBB'', fps = ''25'', face_count = ''2''\<rparr>"

definition frame3 :: "string frame_data" where
  "frame3 = \<lparr>image = ''CCCC'', fps = ''23'', face_count = ''1''\<rparr>"


definition gaze_alert :: "string alert_data" where
  "gaze_alert =
     \<lparr>timestamp = ''10:15:07'', alert_type = ''Gaze Away'',
      message = ''looking away'', severity = ''low''\<rparr>"


definition nested_alert :: "string alert_data" where
  \<open>nested_alert =
     \<lparr>timestamp = ''10:17:00'', alert_type = ''Audio'',
      message = ''<span class="alert-placeholder">x</span>seen'', severity = ''low''\<rparr>\<close>

section \<open>Auxiliary facts\<close>

lemma run_Nil: "run h [] s = s"
  by (simp add: run_def)

lemma run_Cons: "run h (e # evs) s = run h evs (dispatch h e s)"
  by (simp add: run_def)

lemma run_snoc: "run h (evs @ [e]) s = dispatch h e (run h evs s)"
  by (simp add: run_def)




















text \<open>
  What markup in a payload can do. The message of the first alert carries a span of
  class \<open>alert-placeholder\<close>; the entry built for it holds the span, and the next alert
  removes the span from that entry.
\<close>

lemma nested_placeholder_is_stripped:
  "alertsLog (run sample_host [StartClick, NewAlert nested_alert] idle_page) =
     [Element ''div'' [''alert-item'', ''severity-low'']
        [Text (newline @ replicate 12 (CHR '' '')),
         Element ''div'' [''timestamp''] [Text ''10:17:00''],
         Text (newline @ replicate 12 (CHR '' '')),
         Element ''div'' [''message''] [Text ''Audio''],
         Text (newline @ replicate 12 (CHR '' '')),
         Element ''div'' [''details'']
           [Element ''span'' [''alert-placeholder''] [Text ''x''], Text ''seen''],
         Text (newline @ replicate 8 (CHR '' ''))]]"
  "alertsLog (run sample_host [StartClick, NewAlert nested_alert, NewAlert gaze_alert] idle_page) =
     [alert_item sample_host gaze_alert,
      Element ''div'' [''alert-item'', ''severity-low'']
        [Text (newline @ replicate 12 (CHR '' '')),
         Element ''div'' [''timestamp''] [Text ''10:17:00''],
         Text (newline @ replicate 12 (CHR '' '')),
         Element ''div'' [''message''] [Text ''Audio''],
         Text (newline @ replicate 12 (CHR '' '')),
         Element ''div'' [''details''] [Text ''seen''],
         Text (newline @ replicate 8 (CHR '' ''))]]"
  by code_simp+

section \<open>Properties\<close>

text \<open>
  C1. Each of the three ways into the stopped state (the stop button, the server's
  supervision_stopped notification, a disconnect) resets the video image to the fixed
  placeholder and both numeric indicators to the marker \<open>--\<close>.
\<close>

theorem stop_paths_reset_display:
  "videoFeed_src (stopBtn_click s) = ''static/placeholder.png''
   \<and> fpsStat_textContent (stopBtn_click s) = ''--''
   \<and> facesStat_textContent (stopBtn_click s) = ''--''
   \<and> videoFeed_src (on_supervision_stopped s) = ''static/placeholder.png''
   \<and> fpsStat_textContent (on_supervision_stopped s) = ''--''
   \<and> facesStat_textContent (on_supervision_stopped s) = ''--''
   \<and> videoFeed_src (on_disconnect s) = ''static/placeholder.png''
   \<and> fpsStat_textContent (on_disconnect s) = ''--''
   \<and> facesStat_textContent (on_disconnect s) = ''--''"
  by (simp add: stopBtn_click_def on_supervision_stopped_def on_disconnect_def
      stopSupervisionUI_def Let_def)

text \<open>
  C2. After a non-empty sequence of video_frame events the page is what the last event
  alone would have made it: the image source is the data URL of that event's image
  payload, and the two indicators show the text of that event's fps and face count.
  Nothing of the earlier frames or of the previous display enters the result.
\<close>

theorem frames_last_write_wins:
  assumes "ds \<noteq> []"
  shows "run h (map VideoFrame ds) s = on_video_frame h (last ds) s
    \<and> videoFeed_src (run h (map VideoFrame ds) s) = ''data:image/jpeg;base64,'' @ image (last ds)
    \<and> fpsStat_textContent (run h (map VideoFrame ds) s) = toText h (fps (last ds))
    \<and> facesStat_textContent (run h (map VideoFrame ds) s) = toText h (face_count (last ds))"
proof -
  have twice: "on_video_frame h d (on_video_frame h d' t) = on_video_frame h d t" for d d' t
    by (simp add: on_video_frame_def)
  from assms have "run h (map VideoFrame ds) s = on_video_frame h (last ds) s"
  proof (induction ds rule: rev_nonempty_induct)
    case (single d)
    show ?case by (simp add: run_Cons run_Nil)
  next
    case (snoc d ds)
    then show ?case by (simp add: run_snoc twice)
  qed
  then show ?thesis by (simp add: on_video_frame_def)
qed

theorem frames_last_write_wins_witness:
  "[frame1, frame2, frame3] \<noteq> []
   \<and> monitoring (startBtn_click idle_page)
   \<and> fpsStat_textContent
        (run sample_host (map VideoFrame [frame1, frame2, frame3]) (startBtn_click idle_page)) = ''23''
   \<and> facesStat_textContent
        (run sample_host (map VideoFrame [frame1, frame2, frame3]) (startBtn_click idle_page)) = ''1''
   \<and> videoFeed_src
        (run sample_host (map VideoFrame [frame1, frame2, frame3]) (startBtn_click idle_page))
      = ''data:image/jpeg;base64,CCCC''"
  using frames_last_write_wins [of "[frame1, frame2, frame3]" sample_host "startBtn_click idle_page"]
  by (simp add: frame3_def sample_host_def on_video_frame_def monitoring_def
      startBtn_click_def startSupervisionUI_def)

text \<open>
  C3. The supervision_stopped listener and the disconnect listener reset the page as
  the stop button does, and emit nothing. After each of the three, the start control is
  enabled, the stop control disabled, the overlay shown, the image the placeholder and
  both indicators \<open>--\<close>. The list of emitted events is the one before for the two
  listeners, while the stop button appends stop_supervision. Beyond that the three
  results differ only in the console line and, for a disconnect, in the connection
  indicator.
\<close>

theorem server_stop_and_disconnect_reset:
  "reset_fields (on_supervision_stopped s)
     = (False, True, ''flex'', ''static/placeholder.png'', ''--'', ''--'')
   \<and> reset_fields (on_disconnect s)
     = (False, True, ''flex'', ''static/placeholder.png'', ''--'', ''--'')
   \<and> reset_fields (stopBtn_click s)
     = (False, True, ''flex'', ''static/placeholder.png'', ''--'', ''--'')
   \<and> stopped (on_supervision_stopped s)
   \<and> stopped (on_disconnect s)
   \<and> on_supervision_stopped s =
     (stopBtn_click s)\<lparr>emitted := emitted s,
        console := console s @ [''Supervision stopped by server.'']\<rparr>
   \<and> on_disconnect s =
     (stopBtn_click s)\<lparr>emitted := emitted s,
        console := console s @ [''Disconnected from server.''],
        statusDot_classList :=
          append_token ''disconnected'' (classList_remove ''connected'' (statusDot_classList s)),
        statusText_textContent := ''DISCONNECTED''\<rparr>
   \<and> reset_fields (on_supervision_stopped s) = reset_fields (stopBtn_click s)
   \<and> reset_fields (on_disconnect s) = reset_fields (stopBtn_click s)
   \<and> emitted (on_supervision_stopped s) = emitted s
   \<and> emitted (on_disconnect s) = emitted s
   \<and> emitted (stopBtn_click s) = emitted s @ [''stop_supervision'']"
  by (simp add: on_supervision_stopped_def on_disconnect_def stopBtn_click_def
      stopSupervisionUI_def reset_fields_def stopped_def Let_def)




text \<open>
  C5. A start click disables the start control, enables the stop control, hides the
  overlay, sets the log to the placeholder alone and emits start_supervision; the page
  is in live mode as soon as the click handler returns, with no further event.
\<close>

theorem user_start_transition:
  "startBtn_disabled (startBtn_click s) = True
   \<and> stopBtn_disabled (startBtn_click s) = False
   \<and> supervisionOverlay_display (startBtn_click s) = ''none''
   \<and> alertsLog (startBtn_click s) = [alert_placeholder]
   \<and> emitted (startBtn_click s) = emitted s @ [''start_supervision'']
   \<and> monitoring (dispatch h StartClick s)"
  by (simp add: startBtn_click_def startSupervisionUI_def monitoring_def)

text \<open>
  C6. From a page whose start control is enabled and whose stop control is disabled, a
  start click followed by a stop click leaves both controls as they were and shows the
  placeholder image and the marker \<open>--\<close> in both indicators.
\<close>

theorem start_then_stop_restores_controls:
  assumes "\<not> startBtn_disabled s" and "stopBtn_disabled s"
  shows "startBtn_disabled (run h [StartClick, StopClick] s) = startBtn_disabled s
    \<and> stopBtn_disabled (run h [StartClick, StopClick] s) = stopBtn_disabled s
    \<and> videoFeed_src (run h [StartClick, StopClick] s) = ''static/placeholder.png''
    \<and> fpsStat_textContent (run h [StartClick, StopClick] s) = ''--''
    \<and> facesStat_textContent (run h [StartClick, StopClick] s) = ''--''"
  using assms
  by (simp add: run_def startBtn_click_def startSupervisionUI_def stopBtn_click_def
      stopSupervisionUI_def)

theorem start_then_stop_restores_controls_witness:
  "\<not> startBtn_disabled idle_page \<and> stopBtn_disabled idle_page
   \<and> \<not> startBtn_disabled (run sample_host [StartClick, StopClick] idle_page)
   \<and> stopBtn_disabled (run sample_host [StartClick, StopClick] idle_page)
   \<and> fpsStat_textContent (run sample_host [StartClick, StopClick] idle_page) = ''--''"
  using start_then_stop_restores_controls [of idle_page sample_host]
  by (simp add: idle_page_def)







text \<open>
  C9. The stop click, the supervision_stopped listener and the disconnect listener
  leave the alert log exactly as it is, so what was logged during a session is still
  there after the session has stopped. The connect listener, the video_frame listener
  and the clock leave it as it is too. The start click is the handler that clears the
  log, to the placeholder alone.
\<close>

theorem stop_paths_keep_alert_log:
  "alertsLog (stopBtn_click s) = alertsLog s
   \<and> alertsLog (on_supervision_stopped s) = alertsLog s
   \<and> alertsLog (on_disconnect s) = alertsLog s
   \<and> alertsLog (stopSupervisionUI s) = alertsLog s
   \<and> alertsLog (on_connect s) = alertsLog s
   \<and> alertsLog (on_video_frame h d s) = alertsLog s
   \<and> alertsLog (updateTime h now s) = alertsLog s
   \<and> alertsLog (startBtn_click s) = [alert_placeholder]"
  by (simp add: on_supervision_stopped_def on_disconnect_def stopBtn_click_def
      stopSupervisionUI_def startBtn_click_def startSupervisionUI_def on_connect_def
      on_video_frame_def updateTime_def Let_def)

text \<open>
  C10. The stop reset applied twice gives the page that one application gives. Hence a
  stop-inducing event that follows another one (a disconnect after a server stop, a
  server stop after a disconnect or after a stop click, a second stop click) leaves the
  controls, the overlay, the image and both indicators in the same reset state.
\<close>

theorem stop_reset_idempotent:
  "stopSupervisionUI (stopSupervisionUI s) = stopSupervisionUI s
   \<and> reset_fields (on_disconnect (on_supervision_stopped s)) = reset_fields (on_supervision_stopped s)
   \<and> reset_fields (on_supervision_stopped (on_disconnect s)) = reset_fields (on_disconnect s)
   \<and> reset_fields (stopBtn_click (stopBtn_click s)) = reset_fields (stopBtn_click s)
   \<and> reset_fields (on_supervision_stopped (stopBtn_click s)) = reset_fields (stopBtn_click s)"
  by (simp add: on_supervision_stopped_def on_disconnect_def stopBtn_click_def
      stopSupervisionUI_def reset_fields_def Let_def)

end
